theory Spec2Isabelle
  imports Main "HOL-Library.AList"
begin

section \<open>Data model of \<open>src/utils/multiplayer.ts\<close>\<close>

text \<open>
  The field \<open>status\<close> of a room is one of three string literals.
\<close>

datatype status = Waiting | Playing | Finished

text \<open>
  \<open>lastUpdated\<close> is an ISO string in the source. The only thing the program ever does with
  it is to build \<open>new Date(lastUpdated)\<close> and compare two such dates with \<open>>\<close>, so the field is modelled
  by the date that \<open>new Date\<close> builds from it: a time value in milliseconds since the
  epoch, or the invalid date (time value \<open>NaN\<close>) for a text that does not parse. Every
  stamp the program writes itself is \<open>new Date().toISOString()\<close>, which parses back to
  the clock reading it was made from.
\<close>

datatype jsdate = TimeValue int | InvalidDate

text \<open>
  \<open>new Date(a) > new Date(b)\<close>: both dates are converted to their time values; a comparison
  with \<open>NaN\<close> is false.
\<close>

fun date_gt :: "jsdate \<Rightarrow> jsdate \<Rightarrow> bool" where
  "date_gt (TimeValue a) (TimeValue b) = (a > b)"
| "date_gt _ _ = False"

text \<open>
  \<open>Omit<Room, 'lastUpdated'>\<close> is the argument type of \<open>createRoom\<close>; \<open>Room\<close> adds the
  stamp. \<open>maxPlayers\<close> is a JavaScript number that holds an integer.
\<close>

record RoomData =
  id' :: string
  name :: string
  host :: string
  players :: "string list"
  game :: string
  status :: status
  maxPlayers :: int
  createdAt :: string

record Room = RoomData +
  lastUpdated :: jsdate

text \<open>
  \<open>gameData\<close> has type \<open>any\<close>: the payload is opaque, a type parameter here. Optional
  fields are options.
\<close>

record 'g GameState =
  roomId :: string
  currentPlayer :: "string option"
  gameData :: "'g option"
  moves :: "'g list option"
  lastUpdated' :: jsdate

text \<open>
  What a listener is called with: a room, a game state, or the list of all rooms.
\<close>

datatype 'g payload =
  RoomPayload Room
| GamePayload "'g GameState"
| RoomsPayload "Room list"

text \<open>
  The three keys of \<open>localStorage\<close> that the program uses. A stored text is modelled by the
  value that \<open>JSON.parse\<close> reads from it; \<open>None\<close> is a key that \<open>getItem\<close> reports as
  \<open>null\<close>. The adapter is modelled without faults (a write that fails, a text that does
  not parse): the \<open>try\<close>/\<open>catch\<close> blocks of the source only log what is thrown and
  abandon the rest of the operation at hand.
\<close>

record 'g sharedData =
  rooms' :: "Room list"
  gameStates' :: "'g GameState list"
  lastSync :: int

record 'g Storage =
  addaGameRooms :: "Room list option"
  addaGameStates :: "'g GameState list option"
  addaMultiplayerSync :: "'g sharedData option"

text \<open>
  The manager. A JavaScript \<open>Map\<close> keeps its keys in insertion order, \<open>set\<close> on a key that
  is present keeps the key's place and \<open>delete\<close> removes it: an association list with
  \<open>AList.update\<close>, \<open>AList.delete\<close> and \<open>map_of\<close>. Callbacks are compared by identity in
  the source (\<open>indexOf\<close>); they are values of a type \<open>'cb\<close> here and each call of one is
  recorded, with its argument, at the end of \<open>invoked\<close>. A callback is taken to return
  normally and not to call back into the manager while it runs. \<open>localStorage\<close> is the
  browser's store, shared with other tabs.
\<close>

record ('cb, 'g) MultiplayerManager =
  rooms :: "(string \<times> Room) list"
  gameStates :: "(string \<times> 'g GameState) list"
  listeners :: "(string \<times> 'cb list) list"
  localStorage :: "'g Storage"
  invoked :: "('cb \<times> 'g payload) list"

section \<open>Persistence and notification\<close>

text \<open>
  \<open>saveToStorage\<close> writes all rooms and all game states under the three keys;
  \<open>syncNow\<close> is the reading of \<open>Date.now()\<close>.
\<close>

definition saveToStorage ::
  "int \<Rightarrow> ('cb, 'g) MultiplayerManager \<Rightarrow> ('cb, 'g) MultiplayerManager" where
  "saveToStorage syncNow m =
     (let roomsArray = map snd (rooms m);
          gameStatesArray = map snd (gameStates m);
          sharedData = \<lparr>rooms' = roomsArray, gameStates' = gameStatesArray, lastSync = syncNow\<rparr>
      in m\<lparr>localStorage :=
             \<lparr>addaGameRooms = Some roomsArray,
              addaGameStates = Some gameStatesArray,
              addaMultiplayerSync = Some sharedData\<rparr>\<rparr>)"

definition invoke ::
  "'g payload \<Rightarrow> 'cb \<Rightarrow> ('cb, 'g) MultiplayerManager \<Rightarrow> ('cb, 'g) MultiplayerManager" where
  "invoke data callback m = m\<lparr>invoked := invoked m @ [(callback, data)]\<rparr>"

definition notifyListeners ::
  "string \<Rightarrow> 'g payload \<Rightarrow> ('cb, 'g) MultiplayerManager \<Rightarrow> ('cb, 'g) MultiplayerManager" where
  "notifyListeners event data m =
     (case map_of (listeners m) event of
        None \<Rightarrow> m
      | Some eventListeners \<Rightarrow> fold (invoke data) eventListeners m)"

section \<open>The reconciler\<close>

definition syncRoom ::
  "Room \<Rightarrow> ('cb, 'g) MultiplayerManager \<Rightarrow> ('cb, 'g) MultiplayerManager" where
  "syncRoom room m =
     (if (case map_of (rooms m) (id' room) of
            None \<Rightarrow> True
          | Some existing \<Rightarrow> date_gt (lastUpdated room) (lastUpdated existing))
      then notifyListeners (''room:'' @ id' room) (RoomPayload room)
             (m\<lparr>rooms := AList.update (id' room) room (rooms m)\<rparr>)
      else m)"

definition syncGameState ::
  "'g GameState \<Rightarrow> ('cb, 'g) MultiplayerManager \<Rightarrow> ('cb, 'g) MultiplayerManager" where
  "syncGameState state m =
     (if (case map_of (gameStates m) (roomId state) of
            None \<Rightarrow> True
          | Some existing \<Rightarrow> date_gt (lastUpdated' state) (lastUpdated' existing))
      then notifyListeners (''game:'' @ roomId state) (GamePayload state)
             (m\<lparr>gameStates := AList.update (roomId state) state (gameStates m)\<rparr>)
      else m)"

text \<open>One tick of the timer that \<open>startSync\<close> sets up.\<close>

definition syncWithOtherDevices ::
  "('cb, 'g) MultiplayerManager \<Rightarrow> ('cb, 'g) MultiplayerManager" where
  "syncWithOtherDevices m =
     (case addaMultiplayerSync (localStorage m) of
        None \<Rightarrow> m
      | Some data \<Rightarrow>
          (let m1 = fold syncRoom (rooms' data) m;
               m2 = fold syncGameState (gameStates' data) m1
           in notifyListeners ''rooms'' (RoomsPayload (map snd (rooms m2))) m2))"

section \<open>Room management\<close>

text \<open>
  Every operation returns its result and the manager after it. \<open>now\<close> is the reading of
  \<open>new Date()\<close> that the operation stamps, \<open>syncNow\<close> the later reading of \<open>Date.now()\<close>
  inside \<open>saveToStorage\<close>.
\<close>

definition createRoom ::
  "RoomData \<Rightarrow> int \<Rightarrow> int \<Rightarrow> ('cb, 'g) MultiplayerManager
     \<Rightarrow> Room \<times> ('cb, 'g) MultiplayerManager" where
  "createRoom roomData now syncNow m =
     (let room = \<lparr>id' = id' roomData, name = name roomData, host = host roomData,
                  players = players roomData, game = game roomData,
                  status = status roomData, maxPlayers = maxPlayers roomData,
                  createdAt = createdAt roomData, lastUpdated = TimeValue now\<rparr>
      in (room, saveToStorage syncNow (m\<lparr>rooms := AList.update (id' room) room (rooms m)\<rparr>)))"

definition joinRoom ::
  "string \<Rightarrow> string \<Rightarrow> int \<Rightarrow> int \<Rightarrow> ('cb, 'g) MultiplayerManager
     \<Rightarrow> Room option \<times> ('cb, 'g) MultiplayerManager" where
  "joinRoom rid playerName now syncNow m =
     (case map_of (rooms m) rid of
        None \<Rightarrow> (None, m)
      | Some room \<Rightarrow>
          if playerName \<in> set (players room) then (Some room, m)
          else if int (length (players room)) \<ge> maxPlayers room then (None, m)
          else
            (let updatedRoom = room\<lparr>players := players room @ [playerName],
                                     lastUpdated := TimeValue now\<rparr>
             in (Some updatedRoom,
                 saveToStorage syncNow
                   (m\<lparr>rooms := AList.update rid updatedRoom (rooms m)\<rparr>))))"

definition leaveRoom ::
  "string \<Rightarrow> string \<Rightarrow> int \<Rightarrow> int \<Rightarrow> ('cb, 'g) MultiplayerManager
     \<Rightarrow> Room option \<times> ('cb, 'g) MultiplayerManager" where
  "leaveRoom rid playerName now syncNow m =
     (case map_of (rooms m) rid of
        None \<Rightarrow> (None, m)
      | Some room \<Rightarrow>
          (let updatedPlayers = filter (\<lambda>p. p \<noteq> playerName) (players room)
           in if length updatedPlayers = 0
              then (None,
                    saveToStorage syncNow
                      (m\<lparr>rooms := AList.delete rid (rooms m),
                         gameStates := AList.delete rid (gameStates m)\<rparr>))
              else
                (let updatedRoom =
                       room\<lparr>players := updatedPlayers,
                            host := (if host room = playerName \<and> length updatedPlayers > 0
                                     then updatedPlayers ! 0 else host room),
                            lastUpdated := TimeValue now\<rparr>
                 in (Some updatedRoom,
                     saveToStorage syncNow
                       (m\<lparr>rooms := AList.update rid updatedRoom (rooms m)\<rparr>)))))"

definition updateRoomStatus ::
  "string \<Rightarrow> status \<Rightarrow> int \<Rightarrow> int \<Rightarrow> ('cb, 'g) MultiplayerManager
     \<Rightarrow> Room option \<times> ('cb, 'g) MultiplayerManager" where
  "updateRoomStatus rid st now syncNow m =
     (case map_of (rooms m) rid of
        None \<Rightarrow> (None, m)
      | Some room \<Rightarrow>
          (let updatedRoom = room\<lparr>status := st, lastUpdated := TimeValue now\<rparr>
           in (Some updatedRoom,
               saveToStorage syncNow
                 (m\<lparr>rooms := AList.update rid updatedRoom (rooms m)\<rparr>))))"

definition getRoom :: "string \<Rightarrow> ('cb, 'g) MultiplayerManager \<Rightarrow> Room option" where
  "getRoom rid m = map_of (rooms m) rid"

definition getAllRooms :: "('cb, 'g) MultiplayerManager \<Rightarrow> Room list" where
  "getAllRooms m = map snd (rooms m)"

section \<open>Game state management\<close>

definition updateGameState ::
  "string \<Rightarrow> 'g option \<Rightarrow> int \<Rightarrow> int \<Rightarrow> ('cb, 'g) MultiplayerManager
     \<Rightarrow> ('cb, 'g) MultiplayerManager" where
  "updateGameState rid gdata now syncNow m =
     (let gameState = \<lparr>roomId = rid, currentPlayer = None, gameData = gdata,
                       moves = None, lastUpdated' = TimeValue now\<rparr>
      in saveToStorage syncNow
           (m\<lparr>gameStates := AList.update rid gameState (gameStates m)\<rparr>))"

definition getGameState ::
  "string \<Rightarrow> ('cb, 'g) MultiplayerManager \<Rightarrow> 'g GameState option" where
  "getGameState rid m = map_of (gameStates m) rid"

section \<open>Event listeners\<close>

text \<open>
  \<open>on\<close> creates the channel's array when it is missing and pushes the callback at its
  end; \<open>off\<close> removes the first entry that is the callback.
\<close>

definition on ::
  "string \<Rightarrow> 'cb \<Rightarrow> ('cb, 'g) MultiplayerManager \<Rightarrow> ('cb, 'g) MultiplayerManager" where
  "on event callback m =
     (let m1 = (if map_of (listeners m) event = None
                then m\<lparr>listeners := AList.update event [] (listeners m)\<rparr> else m)
      in case map_of (listeners m1) event of
           None \<Rightarrow> m1
         | Some eventListeners \<Rightarrow>
             m1\<lparr>listeners := AList.update event (eventListeners @ [callback]) (listeners m1)\<rparr>)"

definition off ::
  "string \<Rightarrow> 'cb \<Rightarrow> ('cb, 'g) MultiplayerManager \<Rightarrow> ('cb, 'g) MultiplayerManager" where
  "off event callback m =
     (case map_of (listeners m) event of
        None \<Rightarrow> m
      | Some eventListeners \<Rightarrow>
          m\<lparr>listeners := AList.update event (remove1 callback eventListeners) (listeners m)\<rparr>)"

section \<open>Notions used to state the properties\<close>

text \<open>
  The manager that the constructor builds when \<open>localStorage\<close> holds none of the three
  keys and nothing has been registered yet.
\<close>

definition emptyManager :: "('cb, 'g) MultiplayerManager" where
  "emptyManager =
     \<lparr>rooms = [], gameStates = [], listeners = [],
      localStorage = \<lparr>addaGameRooms = None, addaGameStates = None, addaMultiplayerSync = None\<rparr>,
      invoked = []\<rparr>"

text \<open>
  The callbacks registered on a channel at the moment, in the order of its array.
\<close>

definition subscribers :: "string \<Rightarrow> ('cb, 'g) MultiplayerManager \<Rightarrow> 'cb list" where
  "subscribers event m =
     (case map_of (listeners m) event of None \<Rightarrow> [] | Some eventListeners \<Rightarrow> eventListeners)"

text \<open>
  The Room invariant of the specification (section 3): no more players than \<open>maxPlayers\<close>,
  the host among the players while there are any, and no room without players. The
  repository satisfies it when every stored room does.
\<close>

definition roomInvariant :: "'a RoomData_scheme \<Rightarrow> bool" where
  "roomInvariant r \<longleftrightarrow>
     int (length (players r)) \<le> maxPlayers r \<and>
     (players r \<noteq> [] \<longrightarrow> host r \<in> set (players r)) \<and>
     players r \<noteq> []"

definition repositoryInvariant :: "('cb, 'g) MultiplayerManager \<Rightarrow> bool" where
  "repositoryInvariant m \<longleftrightarrow> list_all roomInvariant (map snd (rooms m))"

subsection \<open>The scenario of the specification: a room for two\<close>

definition friendsSpec :: RoomData where
  "friendsSpec =
     \<lparr>id' = ''K3X9QZ'', name = ''Friends'', host = ''alice'', players = [''alice''],
      game = ''Spy'', status = Waiting, maxPlayers = 2,
      createdAt = ''2024-05-01T10:00:00.000Z''\<rparr>"

definition aliceRoom :: Room where
  "aliceRoom =
     \<lparr>id' = ''K3X9QZ'', name = ''Friends'', host = ''alice'', players = [''alice''],
      game = ''Spy'', status = Waiting, maxPlayers = 2,
      createdAt = ''2024-05-01T10:00:00.000Z'', lastUpdated = TimeValue 1000\<rparr>"

definition aliceBobRoom :: Room where
  "aliceBobRoom = aliceRoom\<lparr>players := [''alice'', ''bob''], lastUpdated := TimeValue 2000\<rparr>"

definition friendsCreated :: "(string, string) MultiplayerManager" where
  "friendsCreated = snd (createRoom friendsSpec 1000 1001 emptyManager)"

definition friendsPlaying :: "(string, string) MultiplayerManager" where
  "friendsPlaying = updateGameState ''K3X9QZ'' (Some ''round 1'') 1500 1501 friendsCreated"

definition friendsJoined :: "(string, string) MultiplayerManager" where
  "friendsJoined = snd (joinRoom ''K3X9QZ'' ''bob'' 2000 2001 friendsCreated)"

text \<open>
  The same room when every clock reading of its creation is the millisecond 1000.
\<close>

definition friendsSameMs :: "(string, string) MultiplayerManager" where
  "friendsSameMs = snd (createRoom friendsSpec 1000 1000 emptyManager)"

subsection \<open>A manager and the snapshot that another tab has written\<close>

definition localA :: Room where
  "localA =
     \<lparr>id' = ''AAAAAA'', name = ''Alpha'', host = ''ann'', players = [''ann''],
      game = ''Spy'', status = Waiting, maxPlayers = 4, createdAt = ''c1'',
      lastUpdated = TimeValue 1000\<rparr>"

definition remoteA :: Room where
  "remoteA = localA\<lparr>players := [''ann'', ''zoe''], lastUpdated := TimeValue 2000\<rparr>"

definition localB :: Room where
  "localB =
     \<lparr>id' = ''BBBBBB'', name = ''Beta'', host = ''ben'', players = [''ben''],
      game = ''Spy'', status = Waiting, maxPlayers = 4, createdAt = ''c2'',
      lastUpdated = TimeValue 3000\<rparr>"

definition remoteB :: Room where
  "remoteB = localB\<lparr>status := Playing\<rparr>"

definition remoteC :: Room where
  "remoteC =
     \<lparr>id' = ''CCCCCC'', name = ''Gamma'', host = ''cat'', players = [''cat''],
      game = ''Spy'', status = Waiting, maxPlayers = 4, createdAt = ''c3'',
      lastUpdated = TimeValue 500\<rparr>"

definition localGameA :: "string GameState" where
  "localGameA =
     \<lparr>roomId = ''AAAAAA'', currentPlayer = None, gameData = Some ''round 1'',
      moves = None, lastUpdated' = TimeValue 1500\<rparr>"

definition remoteGameA :: "string GameState" where
  "remoteGameA = localGameA\<lparr>gameData := Some ''round 2'', lastUpdated' := TimeValue 2500\<rparr>"

definition remoteGameC :: "string GameState" where
  "remoteGameC =
     \<lparr>roomId = ''CCCCCC'', currentPlayer = None, gameData = Some ''start'',
      moves = None, lastUpdated' = TimeValue 600\<rparr>"

definition otherTabSnapshot :: "string sharedData" where
  "otherTabSnapshot =
     \<lparr>rooms' = [remoteA, remoteB, remoteC], gameStates' = [remoteGameA, remoteGameC],
      lastSync = 3001\<rparr>"

definition beforeTick :: "(string, string) MultiplayerManager" where
  "beforeTick =
     \<lparr>rooms = [(''AAAAAA'', localA), (''BBBBBB'', localB)],
      gameStates = [(''AAAAAA'', localGameA)],
      listeners = [],
      localStorage = \<lparr>addaGameRooms = None, addaGameStates = None,
                       addaMultiplayerSync = Some otherTabSnapshot\<rparr>,
      invoked = []\<rparr>"

subsection \<open>Three registrations on the channel of the room list\<close>

definition threeListeners :: "(string, string) MultiplayerManager" where
  "threeListeners =
     on ''rooms'' ''handleRoomsUpdate''
       (on ''rooms'' ''logRooms'' (on ''rooms'' ''handleRoomsUpdate'' emptyManager))"

section \<open>Basic facts\<close>

lemmas friends_defs = friendsSpec_def aliceRoom_def aliceBobRoom_def friendsCreated_def
  friendsPlaying_def friendsJoined_def emptyManager_def

lemmas tick_defs = localA_def remoteA_def localB_def remoteB_def remoteC_def localGameA_def
  remoteGameA_def remoteGameC_def otherTabSnapshot_def beforeTick_def

lemma saveToStorage_fields [simp]:
  "rooms (saveToStorage t m) = rooms m"
  "gameStates (saveToStorage t m) = gameStates m"
  "listeners (saveToStorage t m) = listeners m"
  "invoked (saveToStorage t m) = invoked m"
  by (simp_all add: saveToStorage_def Let_def)

lemma saveToStorage_localStorage:
  "localStorage (saveToStorage t m) =
     \<lparr>addaGameRooms = Some (map snd (rooms m)),
      addaGameStates = Some (map snd (gameStates m)),
      addaMultiplayerSync =
        Some \<lparr>rooms' = map snd (rooms m), gameStates' = map snd (gameStates m), lastSync = t\<rparr>\<rparr>"
  by (simp add: saveToStorage_def Let_def)

lemma fold_invoke:
  "fold (invoke data) cbs m = m\<lparr>invoked := invoked m @ map (\<lambda>callback. (callback, data)) cbs\<rparr>"
  by (induction cbs arbitrary: m) (simp_all add: invoke_def)

lemma notifyListeners_eq:
  "notifyListeners event data m =
     m\<lparr>invoked := invoked m @ map (\<lambda>callback. (callback, data)) (subscribers event m)\<rparr>"
  by (simp add: notifyListeners_def subscribers_def fold_invoke split: option.split)

lemma notifyListeners_fields [simp]:
  "rooms (notifyListeners event data m) = rooms m"
  "gameStates (notifyListeners event data m) = gameStates m"
  "listeners (notifyListeners event data m) = listeners m"
  "localStorage (notifyListeners event data m) = localStorage m"
  by (simp_all add: notifyListeners_eq)

lemma subscribers_on: "subscribers event (on event callback m) = subscribers event m @ [callback]"
  by (simp add: on_def subscribers_def Let_def update_conv' split: option.split)

lemma subscribers_fold_on:
  "subscribers event (fold (on event) cbs m) = subscribers event m @ cbs"
  by (induction cbs arbitrary: m) (simp_all add: subscribers_on)

lemma subscribers_off:
  "subscribers event (off event callback m) = remove1 callback (subscribers event m)"
  by (simp add: off_def subscribers_def update_conv' split: option.split)

lemma on_fields [simp]:
  "rooms (on event callback m) = rooms m"
  "gameStates (on event callback m) = gameStates m"
  "invoked (on event callback m) = invoked m"
  by (simp_all add: on_def Let_def split: option.split)

section \<open>The room operations\<close>

text \<open>
  Claim C1, as amended. \<open>createRoom\<close> copies every field of the caller's specification and
  adds the clock reading as \<open>lastUpdated\<close>; the room it returns is the room stored under
  the specification's id, and it is what has been written to storage. So the result has
  \<open>players = [host]\<close> and \<open>status = waiting\<close> whenever the specification has them; the
  operation does not set either by itself.
\<close>

theorem createRoom_copies_specification:
  assumes "createRoom roomData now syncNow m = (room, m')"
  shows "players room = players roomData \<and> status room = status roomData \<and>
         host room = host roomData \<and> lastUpdated room = TimeValue now \<and>
         getRoom (id' roomData) m' = Some room \<and>
         addaGameRooms (localStorage m') = Some (getAllRooms m') \<and>
         (players roomData = [host roomData] \<and> status roomData = Waiting \<longrightarrow>
            players room = [host room] \<and> status room = Waiting)"
  using assms
  by (auto simp: createRoom_def Let_def getRoom_def getAllRooms_def update_conv'
      saveToStorage_localStorage)

theorem createRoom_copies_specification_witness:
  "players friendsSpec = [host friendsSpec] \<and> status friendsSpec = Waiting \<and>
   fst (createRoom friendsSpec 1000 1001 (emptyManager :: (string, string) MultiplayerManager))
     = aliceRoom \<and>
   players aliceRoom = [host aliceRoom] \<and> status aliceRoom = Waiting \<and>
   lastUpdated aliceRoom = TimeValue 1000 \<and>
   getRoom ''K3X9QZ'' friendsCreated = Some aliceRoom"
proof -
  have run: "createRoom friendsSpec 1000 1001 (emptyManager :: (string, string) MultiplayerManager)
               = (aliceRoom, friendsCreated)"
    by (simp add: friends_defs createRoom_def Let_def)
  have spec: "players friendsSpec = [host friendsSpec]" "status friendsSpec = Waiting"
    "id' friendsSpec = ''K3X9QZ''"
    by (simp_all add: friendsSpec_def)
  from createRoom_copies_specification [OF run] spec run show ?thesis
    by simp
qed

text \<open>
  Claim C1 as stated fails: a specification whose status is \<open>playing\<close> yields a room whose
  status is \<open>playing\<close>.
\<close>

theorem createRoom_status_counterexample:
  "players (friendsSpec\<lparr>status := Playing\<rparr>) = [host (friendsSpec\<lparr>status := Playing\<rparr>)] \<and>
   status (fst (createRoom (friendsSpec\<lparr>status := Playing\<rparr>) 1000 1001
                  (emptyManager :: (string, string) MultiplayerManager))) \<noteq> Waiting"
  by (simp add: friendsSpec_def createRoom_def Let_def)

text \<open>
  Claim C3. \<open>joinRoom\<close> is idempotent: for a player who is already in the room it returns
  the room as it is and leaves the manager as it is; and whatever a first call did, a second
  call with the same room and player returns what the first returned and changes nothing
  more, so the players are those after the first call.
\<close>

theorem joinRoom_idempotent:
  "(getRoom rid m = Some room \<and> playerName \<in> set (players room) \<longrightarrow>
      joinRoom rid playerName now syncNow m = (Some room, m)) \<and>
   joinRoom rid playerName now2 syncNow2 (snd (joinRoom rid playerName now syncNow m))
     = joinRoom rid playerName now syncNow m"
  by (auto simp: joinRoom_def getRoom_def Let_def update_conv' split: option.split)

theorem joinRoom_idempotent_witness:
  "getRoom ''K3X9QZ'' friendsJoined = Some aliceBobRoom \<and>
   ''bob'' \<in> set (players aliceBobRoom) \<and>
   joinRoom ''K3X9QZ'' ''bob'' 3000 3001 friendsJoined = (Some aliceBobRoom, friendsJoined) \<and>
   joinRoom ''K3X9QZ'' ''bob'' 3000 3001 (snd (joinRoom ''K3X9QZ'' ''bob'' 2000 2001 friendsCreated))
     = joinRoom ''K3X9QZ'' ''bob'' 2000 2001 friendsCreated"
proof -
  have there: "getRoom ''K3X9QZ'' friendsJoined = Some aliceBobRoom"
    by (simp add: friends_defs createRoom_def joinRoom_def getRoom_def Let_def)
  have member: "''bob'' \<in> set (players aliceBobRoom)"
    by (simp add: friends_defs)
  from joinRoom_idempotent [of "''K3X9QZ''" friendsJoined aliceBobRoom "''bob''" 3000 3001]
    joinRoom_idempotent [of "''K3X9QZ''" friendsCreated aliceBobRoom "''bob''" 2000 2001 3000 3001]
    there member
  show ?thesis by simp
qed

text \<open>
  Claim C4. When the room has as many players as \<open>maxPlayers\<close> (or more) and the player is
  not one of them, \<open>joinRoom\<close> returns \<open>null\<close> and the manager, its storage included, is
  exactly what it was.
\<close>

theorem joinRoom_full:
  assumes "getRoom rid m = Some room"
    and "playerName \<notin> set (players room)"
    and "int (length (players room)) \<ge> maxPlayers room"
  shows "joinRoom rid playerName now syncNow m = (None, m)"
  using assms by (simp add: joinRoom_def getRoom_def)

theorem joinRoom_full_witness:
  "getRoom ''K3X9QZ'' friendsJoined = Some aliceBobRoom \<and>
   ''carol'' \<notin> set (players aliceBobRoom) \<and>
   int (length (players aliceBobRoom)) = maxPlayers aliceBobRoom \<and>
   joinRoom ''K3X9QZ'' ''carol'' 3000 3001 friendsJoined = (None, friendsJoined)"
proof -
  have there: "getRoom ''K3X9QZ'' friendsJoined = Some aliceBobRoom"
    by (simp add: friends_defs createRoom_def joinRoom_def getRoom_def Let_def)
  have stranger: "''carol'' \<notin> set (players aliceBobRoom)"
    by (simp add: friends_defs)
  have full: "int (length (players aliceBobRoom)) = maxPlayers aliceBobRoom"
    by (simp add: friends_defs)
  from full have full': "int (length (players aliceBobRoom)) \<ge> maxPlayers aliceBobRoom"
    by simp
  from joinRoom_full [OF there stranger full', of 3000 3001] there stranger full
  show ?thesis by simp
qed

text \<open>
  Claim C5. When the players of the room are exactly \<open>[p]\<close>, \<open>leaveRoom\<close> for \<open>p\<close> returns
  \<open>null\<close>, and in the manager it leaves behind neither \<open>getRoom\<close> nor \<open>getGameState\<close>
  finds anything under the room's id.
\<close>

theorem leaveRoom_last_player:
  assumes "getRoom rid m = Some room" and "players room = [p]"
    and "leaveRoom rid p now syncNow m = (result, m')"
  shows "result = None \<and> getRoom rid m' = None \<and> getGameState rid m' = None"
  using assms by (auto simp: leaveRoom_def getRoom_def getGameState_def delete_conv')

theorem leaveRoom_last_player_witness:
  "getRoom ''K3X9QZ'' friendsPlaying = Some aliceRoom \<and>
   players aliceRoom = [''alice''] \<and>
   getGameState ''K3X9QZ'' friendsPlaying \<noteq> None \<and>
   fst (leaveRoom ''K3X9QZ'' ''alice'' 3000 3001 friendsPlaying) = None \<and>
   getRoom ''K3X9QZ'' (snd (leaveRoom ''K3X9QZ'' ''alice'' 3000 3001 friendsPlaying)) = None \<and>
   getGameState ''K3X9QZ'' (snd (leaveRoom ''K3X9QZ'' ''alice'' 3000 3001 friendsPlaying)) = None"
proof -
  have there: "getRoom ''K3X9QZ'' friendsPlaying = Some aliceRoom"
    by (simp add: friends_defs createRoom_def updateGameState_def getRoom_def Let_def)
  have alone: "players aliceRoom = [''alice'']"
    by (simp add: friends_defs)
  have game: "getGameState ''K3X9QZ'' friendsPlaying \<noteq> None"
    by (simp add: friends_defs createRoom_def updateGameState_def getGameState_def Let_def)
  from leaveRoom_last_player [OF there alone prod.collapse [symmetric], of 3000 3001]
    there alone game
  show ?thesis by simp
qed

text \<open>
  Claim C6, as amended. When players remain after \<open>leaveRoom\<close>, the room it returns (and
  stores) has the remaining players; its host is the first of the remaining players if
  the leaving player was the host, and otherwise the host is the one before. Where the old
  host is not already the first of the remaining players, the new host is that first
  player if and only if the leaving player was the host.
\<close>

theorem leaveRoom_host:
  assumes "getRoom rid m = Some room"
    and "remaining = filter (\<lambda>q. q \<noteq> p) (players room)" and "remaining \<noteq> []"
    and "leaveRoom rid p now syncNow m = (result, m')"
  shows "result = Some (room\<lparr>players := remaining,
                              host := (if host room = p then hd remaining else host room),
                              lastUpdated := TimeValue now\<rparr>) \<and>
         getRoom rid m' = result \<and>
         (host room = p \<longrightarrow> map_option host result = Some (hd remaining)) \<and>
         (host room \<noteq> p \<longrightarrow> map_option host result = Some (host room)) \<and>
         (host room \<noteq> hd remaining \<longrightarrow>
            (map_option host result = Some (hd remaining) \<longleftrightarrow> host room = p))"
  using assms
  by (auto simp: leaveRoom_def getRoom_def Let_def update_conv' hd_conv_nth)

theorem leaveRoom_host_witness:
  "getRoom ''K3X9QZ'' friendsJoined = Some aliceBobRoom \<and>
   host aliceBobRoom = ''alice'' \<and>
   map_option host (fst (leaveRoom ''K3X9QZ'' ''alice'' 3000 3001 friendsJoined)) = Some ''bob'' \<and>
   map_option players (fst (leaveRoom ''K3X9QZ'' ''alice'' 3000 3001 friendsJoined))
     = Some [''bob''] \<and>
   map_option host (fst (leaveRoom ''K3X9QZ'' ''bob'' 3000 3001 friendsJoined)) = Some ''alice''"
proof -
  have there: "getRoom ''K3X9QZ'' friendsJoined = Some aliceBobRoom"
    by (simp add: friends_defs createRoom_def joinRoom_def getRoom_def Let_def)
  have hostA: "host aliceBobRoom = ''alice''"
    by (simp add: friends_defs)
  have remA: "[''bob''] = filter (\<lambda>q. q \<noteq> ''alice'') (players aliceBobRoom)"
    by (simp add: friends_defs)
  have remB: "[''alice''] = filter (\<lambda>q. q \<noteq> ''bob'') (players aliceBobRoom)"
    by (simp add: friends_defs)
  have ne: "[''bob''] \<noteq> []" "[''alice''] \<noteq> []"
    by simp_all
  from leaveRoom_host [OF there remA ne(1) prod.collapse [symmetric], of 3000 3001]
    leaveRoom_host [OF there remB ne(2) prod.collapse [symmetric], of 3000 3001]
    there hostA
  show ?thesis by simp
qed

text \<open>
  Claim C6 as stated fails, as an equivalence: when bob leaves the room of alice and bob,
  the host is still alice, who is the first of the remaining players, and the leaving
  player was not the host.
\<close>

theorem leaveRoom_host_counterexample:
  "getRoom ''K3X9QZ'' friendsJoined = Some aliceBobRoom \<and>
   host aliceBobRoom \<noteq> ''bob'' \<and>
   map_option players (fst (leaveRoom ''K3X9QZ'' ''bob'' 3000 3001 friendsJoined))
     = Some [''alice''] \<and>
   map_option host (fst (leaveRoom ''K3X9QZ'' ''bob'' 3000 3001 friendsJoined))
     = Some (hd [''alice''])"
  by (simp add: friends_defs createRoom_def joinRoom_def leaveRoom_def getRoom_def Let_def)

text \<open>
  What \<open>leaveRoom\<close> does for a player who is not in a room that has players, whoever the
  host is: the players stay, the stamp is renewed, and a host who is that very player
  (a host outside the room) is replaced by the first player.
\<close>

lemma leaveRoom_absent_player:
  assumes "getRoom rid m = Some room"
    and "p \<notin> set (players room)" and "players room \<noteq> []"
  shows "fst (leaveRoom rid p now syncNow m) =
           Some (room\<lparr>host := (if host room = p then hd (players room) else host room),
                      lastUpdated := TimeValue now\<rparr>)"
proof -
  from assms(2) have "\<forall>q \<in> set (players room). q \<noteq> p"
    by blast
  then have "filter (\<lambda>q. q \<noteq> p) (players room) = players room"
    by (simp add: filter_id_conv)
  with assms(1,3) show ?thesis
    by (simp add: leaveRoom_def getRoom_def Let_def hd_conv_nth)
qed

text \<open>
  Claim C10, as amended. In a room of the repository that has players, \<open>leaveRoom\<close> for a
  player who is not in the room and is not the room's host (no such player is the host
  when the host is one of the players) returns the room with the same players and the
  same host and with the clock reading of the call as \<open>lastUpdated\<close>, stores this room
  under the id and writes the rooms to storage. The call is a no-op on the room exactly
  when that clock reading is the stamp the room had: for any other reading the returned
  room differs from the room before and the manager is changed. The conflict-resolution
  clock of the room advances exactly when the reading is later than the stamp before.
\<close>

theorem leaveRoom_non_member:
  assumes "getRoom rid m = Some room"
    and "p \<notin> set (players room)" and "players room \<noteq> []"
    and "host room \<noteq> p"
    and "leaveRoom rid p now syncNow m = (result, m')"
  shows "result = Some (room\<lparr>lastUpdated := TimeValue now\<rparr>) \<and>
         map_option players result = Some (players room) \<and>
         map_option host result = Some (host room) \<and>
         map_option lastUpdated result = Some (TimeValue now) \<and>
         getRoom rid m' = result \<and>
         addaGameRooms (localStorage m') = Some (getAllRooms m') \<and>
         map_option rooms' (addaMultiplayerSync (localStorage m')) = Some (getAllRooms m') \<and>
         (result = Some room \<longleftrightarrow> lastUpdated room = TimeValue now) \<and>
         (lastUpdated room \<noteq> TimeValue now \<longrightarrow> m' \<noteq> m) \<and>
         (lastUpdated room = TimeValue t \<longrightarrow>
            (date_gt (TimeValue now) (lastUpdated room) \<longleftrightarrow> t < now))"
proof -
  from leaveRoom_absent_player [OF assms(1-3), of now syncNow] assms(4,5)
  have res: "result = Some (room\<lparr>lastUpdated := TimeValue now\<rparr>)"
    by simp
  from assms(2) have "\<forall>q \<in> set (players room). q \<noteq> p"
    by blast
  then have same: "filter (\<lambda>q. q \<noteq> p) (players room) = players room"
    by (simp add: filter_id_conv)
  have m': "m' = snd (leaveRoom rid p now syncNow m)"
    using assms(5) by simp
  have stored: "getRoom rid m' = result"
    unfolding m' res using assms(1,3,4) same
    by (simp add: leaveRoom_def getRoom_def Let_def update_conv')
  have saved: "addaGameRooms (localStorage m') = Some (getAllRooms m')"
    "map_option rooms' (addaMultiplayerSync (localStorage m')) = Some (getAllRooms m')"
    unfolding m' using assms(1,3) same
    by (simp_all add: leaveRoom_def getRoom_def Let_def getAllRooms_def
        saveToStorage_localStorage)
  have noop: "result = Some room \<longleftrightarrow> lastUpdated room = TimeValue now"
  proof
    assume "result = Some room"
    with res have "room\<lparr>lastUpdated := TimeValue now\<rparr> = room" by simp
    then have "lastUpdated (room\<lparr>lastUpdated := TimeValue now\<rparr>) = lastUpdated room"
      by (rule arg_cong)
    then show "lastUpdated room = TimeValue now" by simp
  next
    assume "lastUpdated room = TimeValue now"
    then have "room\<lparr>lastUpdated := TimeValue now\<rparr> = room" by simp
    with res show "result = Some room" by simp
  qed
  have moved: "lastUpdated room \<noteq> TimeValue now \<longrightarrow> m' \<noteq> m"
  proof
    assume "lastUpdated room \<noteq> TimeValue now"
    with noop have "result \<noteq> Some room" by simp
    with stored assms(1) have "getRoom rid m' \<noteq> getRoom rid m" by simp
    then show "m' \<noteq> m" by auto
  qed
  have later: "lastUpdated room = TimeValue t \<longrightarrow>
                 (date_gt (TimeValue now) (lastUpdated room) \<longleftrightarrow> t < now)"
    by simp
  from res stored saved noop moved later show ?thesis
    by simp
qed

theorem leaveRoom_non_member_witness:
  "getRoom ''K3X9QZ'' friendsJoined = Some aliceBobRoom \<and>
   ''carol'' \<notin> set (players aliceBobRoom) \<and>
   host aliceBobRoom \<noteq> ''carol'' \<and>
   lastUpdated aliceBobRoom = TimeValue 2000 \<and>
   fst (leaveRoom ''K3X9QZ'' ''carol'' 3000 3001 friendsJoined)
     = Some (aliceBobRoom\<lparr>lastUpdated := TimeValue 3000\<rparr>) \<and>
   getRoom ''K3X9QZ'' (snd (leaveRoom ''K3X9QZ'' ''carol'' 3000 3001 friendsJoined))
     = Some (aliceBobRoom\<lparr>lastUpdated := TimeValue 3000\<rparr>) \<and>
   fst (leaveRoom ''K3X9QZ'' ''carol'' 3000 3001 friendsJoined) \<noteq> Some aliceBobRoom \<and>
   snd (leaveRoom ''K3X9QZ'' ''carol'' 3000 3001 friendsJoined) \<noteq> friendsJoined \<and>
   date_gt (TimeValue 3000) (lastUpdated aliceBobRoom)"
proof -
  have there: "getRoom ''K3X9QZ'' friendsJoined = Some aliceBobRoom"
    by (simp add: friends_defs createRoom_def joinRoom_def getRoom_def Let_def)
  have stranger: "''carol'' \<notin> set (players aliceBobRoom)"
    by (simp add: friends_defs)
  have some: "players aliceBobRoom \<noteq> []"
    by (simp add: friends_defs)
  have hostIn: "host aliceBobRoom \<noteq> ''carol''"
    by (simp add: friends_defs)
  have stamp: "lastUpdated aliceBobRoom = TimeValue 2000"
    by (simp add: friends_defs)
  from leaveRoom_non_member [OF there stranger some hostIn prod.collapse [symmetric],
      of 3000 3001 2000]
    there stranger hostIn stamp
  show ?thesis by auto
qed

text \<open>
  Claim C10 as stated fails twice. In a room whose host alice is not among its players,
  \<open>leaveRoom\<close> for alice, who is not in the room, makes the first player the host. And
  when carol, who is not in the room, leaves within the millisecond in which the room was
  created and saved, the call returns the room as it was and the manager is what it was:
  a no-op that does not advance the stamp.
\<close>

theorem leaveRoom_non_member_counterexample:
  "map_option host
     (getRoom ''K3X9QZ'' (snd (createRoom (friendsSpec\<lparr>players := [''bob'']\<rparr>) 1000 1001
         (emptyManager :: (string, string) MultiplayerManager)))) = Some ''alice'' \<and>
   map_option players
     (getRoom ''K3X9QZ'' (snd (createRoom (friendsSpec\<lparr>players := [''bob'']\<rparr>) 1000 1001
         (emptyManager :: (string, string) MultiplayerManager)))) = Some [''bob''] \<and>
   ''alice'' \<notin> set [''bob''] \<and>
   map_option host
     (fst (leaveRoom ''K3X9QZ'' ''alice'' 3000 3001
        (snd (createRoom (friendsSpec\<lparr>players := [''bob'']\<rparr>) 1000 1001
           (emptyManager :: (string, string) MultiplayerManager))))) = Some ''bob'' \<and>
   getRoom ''K3X9QZ'' friendsSameMs = Some aliceRoom \<and>
   ''carol'' \<notin> set (players aliceRoom) \<and>
   players aliceRoom \<noteq> [] \<and>
   host aliceRoom \<in> set (players aliceRoom) \<and>
   leaveRoom ''K3X9QZ'' ''carol'' 1000 1000 friendsSameMs = (Some aliceRoom, friendsSameMs) \<and>
   \<not> date_gt (TimeValue 1000) (lastUpdated aliceRoom)"
  by (simp add: friends_defs friendsSameMs_def createRoom_def leaveRoom_def getRoom_def Let_def
      saveToStorage_def)

section \<open>The event channels\<close>

text \<open>
  Claim C7. One \<open>notifyListeners\<close> on a channel calls the callbacks registered on it at
  that moment, each with the published data, once per registration and in the order of
  registration, and touches nothing else: the calls it adds are exactly the list of
  subscribers, so there are as many as subscribers. \<open>on\<close> puts a callback at the end of
  the channel's list whether or not it is there already, so a callback registered twice
  is called twice; \<open>off\<close> takes out its first entry only.
\<close>

theorem publish_calls_subscribers_in_order:
  "invoked (notifyListeners event data m) =
     invoked m @ map (\<lambda>callback. (callback, data)) (subscribers event m) \<and>
   length (invoked (notifyListeners event data m)) =
     length (invoked m) + length (subscribers event m) \<and>
   rooms (notifyListeners event data m) = rooms m \<and>
   gameStates (notifyListeners event data m) = gameStates m \<and>
   listeners (notifyListeners event data m) = listeners m \<and>
   subscribers event (on event callback m) = subscribers event m @ [callback] \<and>
   subscribers event (fold (on event) cbs m) = subscribers event m @ cbs \<and>
   subscribers event (off event callback m) = remove1 callback (subscribers event m) \<and>
   invoked (notifyListeners event data (on event callback (on event callback m))) =
     invoked m @ map (\<lambda>c. (c, data)) (subscribers event m)
       @ [(callback, data), (callback, data)]"
  by (simp add: notifyListeners_eq subscribers_fold_on subscribers_on subscribers_off)

theorem publish_calls_subscribers_in_order_witness:
  "subscribers ''rooms'' threeListeners
     = [''handleRoomsUpdate'', ''logRooms'', ''handleRoomsUpdate''] \<and>
   invoked (notifyListeners ''rooms'' (RoomsPayload []) threeListeners)
     = [(''handleRoomsUpdate'', RoomsPayload []), (''logRooms'', RoomsPayload []),
        (''handleRoomsUpdate'', RoomsPayload [])]"
proof -
  have subs: "subscribers ''rooms'' threeListeners
                = [''handleRoomsUpdate'', ''logRooms'', ''handleRoomsUpdate'']"
    by (simp add: threeListeners_def emptyManager_def on_def subscribers_def Let_def)
  have quiet: "invoked threeListeners = []"
    by (simp add: threeListeners_def emptyManager_def)
  from publish_calls_subscribers_in_order [of "''rooms''" "RoomsPayload []" threeListeners]
    subs quiet
  show ?thesis by simp
qed

section \<open>The reconciler's merge\<close>

lemma syncRoom_fields [simp]:
  "gameStates (syncRoom r m) = gameStates m"
  "listeners (syncRoom r m) = listeners m"
  "localStorage (syncRoom r m) = localStorage m"
  by (simp_all add: syncRoom_def)

lemma syncGameState_fields [simp]:
  "rooms (syncGameState s m) = rooms m"
  "listeners (syncGameState s m) = listeners m"
  "localStorage (syncGameState s m) = localStorage m"
  by (simp_all add: syncGameState_def)

lemma fold_syncGameState_rooms [simp]: "rooms (fold syncGameState ss m) = rooms m"
  by (induction ss arbitrary: m) simp_all

lemma fold_syncRoom_gameStates [simp]: "gameStates (fold syncRoom rs m) = gameStates m"
  by (induction rs arbitrary: m) simp_all

text \<open>What one remote room does to the lookup of any key.\<close>

lemma syncRoom_lookup:
  "map_of (rooms (syncRoom r m)) k =
     (if k = id' r then
        (case map_of (rooms m) k of
           None \<Rightarrow> Some r
         | Some existing \<Rightarrow>
             if date_gt (lastUpdated r) (lastUpdated existing) then Some r else Some existing)
      else map_of (rooms m) k)"
  by (simp add: syncRoom_def update_conv' split: option.split)

text \<open>The merge only adds or replaces: a key that the snapshot does not name stays.\<close>

lemma fold_syncRoom_other:
  "k \<notin> id' ` set rs \<Longrightarrow> map_of (rooms (fold syncRoom rs m)) k = map_of (rooms m) k"
  by (induction rs arbitrary: m) (simp_all add: syncRoom_lookup)

lemma fold_syncRoom_lookup:
  "distinct (map id' rs) \<Longrightarrow> r \<in> set rs \<Longrightarrow>
   map_of (rooms (fold syncRoom rs m)) (id' r) = map_of (rooms (syncRoom r m)) (id' r)"
proof (induction rs arbitrary: m)
  case Nil
  then show ?case by simp
next
  case (Cons a rs)
  show ?case
  proof (cases "r = a")
    case True
    with Cons.prems have "id' r \<notin> id' ` set rs" by auto
    with True show ?thesis by (simp add: fold_syncRoom_other)
  next
    case False
    with Cons.prems have in_rs: "r \<in> set rs" and ne: "id' a \<noteq> id' r"
      and d: "distinct (map id' rs)"
      by auto
    have "map_of (rooms (fold syncRoom rs (syncRoom a m))) (id' r)
            = map_of (rooms (syncRoom r (syncRoom a m))) (id' r)"
      using Cons.IH [OF d in_rs] .
    also have "\<dots> = map_of (rooms (syncRoom r m)) (id' r)"
      using ne by (simp add: syncRoom_lookup)
    finally show ?thesis by simp
  qed
qed

lemma syncGameState_lookup:
  "map_of (gameStates (syncGameState s m)) k =
     (if k = roomId s then
        (case map_of (gameStates m) k of
           None \<Rightarrow> Some s
         | Some existing \<Rightarrow>
             if date_gt (lastUpdated' s) (lastUpdated' existing) then Some s else Some existing)
      else map_of (gameStates m) k)"
  by (simp add: syncGameState_def update_conv' split: option.split)

lemma fold_syncGameState_other:
  "k \<notin> roomId ` set ss \<Longrightarrow>
   map_of (gameStates (fold syncGameState ss m)) k = map_of (gameStates m) k"
  by (induction ss arbitrary: m) (simp_all add: syncGameState_lookup)

lemma fold_syncGameState_lookup:
  "distinct (map roomId ss) \<Longrightarrow> s \<in> set ss \<Longrightarrow>
   map_of (gameStates (fold syncGameState ss m)) (roomId s)
     = map_of (gameStates (syncGameState s m)) (roomId s)"
proof (induction ss arbitrary: m)
  case Nil
  then show ?case by simp
next
  case (Cons a ss)
  show ?case
  proof (cases "s = a")
    case True
    with Cons.prems have "roomId s \<notin> roomId ` set ss" by auto
    with True show ?thesis by (simp add: fold_syncGameState_other)
  next
    case False
    with Cons.prems have in_ss: "s \<in> set ss" and ne: "roomId a \<noteq> roomId s"
      and d: "distinct (map roomId ss)"
      by auto
    have "map_of (gameStates (fold syncGameState ss (syncGameState a m))) (roomId s)
            = map_of (gameStates (syncGameState s (syncGameState a m))) (roomId s)"
      using Cons.IH [OF d in_ss] .
    also have "\<dots> = map_of (gameStates (syncGameState s m)) (roomId s)"
      using ne by (simp add: syncGameState_lookup)
    finally show ?thesis by simp
  qed
qed

lemma sync_getRoom:
  assumes "addaMultiplayerSync (localStorage m) = Some data"
  shows "getRoom k (syncWithOtherDevices m) = map_of (rooms (fold syncRoom (rooms' data) m)) k"
  using assms by (simp add: syncWithOtherDevices_def getRoom_def Let_def)

lemma sync_getGameState:
  assumes "addaMultiplayerSync (localStorage m) = Some data"
  shows "getGameState k (syncWithOtherDevices m)
           = map_of (gameStates (fold syncGameState (gameStates' data)
                                   (fold syncRoom (rooms' data) m))) k"
  using assms by (simp add: syncWithOtherDevices_def getGameState_def Let_def)

text \<open>
  A snapshot that \<open>saveToStorage\<close> writes lists every room once, because it lists the
  values of a map whose keys are the rooms' ids.
\<close>

lemma saveToStorage_snapshot_distinct:
  assumes "distinct (map fst (rooms m))" and "\<forall>(k, r) \<in> set (rooms m). id' r = k"
  shows "map_option (\<lambda>data. distinct (map id' (rooms' data)))
           (addaMultiplayerSync (localStorage (saveToStorage t m))) = Some True"
proof -
  from assms(2) have eq: "map (id' \<circ> snd) (rooms m) = map fst (rooms m)"
    by auto
  have "distinct (map id' (map snd (rooms m)))"
    unfolding map_map eq by (rule assms(1))
  then show ?thesis
    by (simp add: saveToStorage_localStorage)
qed

text \<open>
  Claim C2, as amended. One tick over a snapshot in storage that lists every id once (as
  every snapshot written by \<open>saveToStorage\<close> does). For each remote room of the snapshot:
  if the manager has no room under its id, the remote room is installed; if it has a
  local room with stamp \<open>T1\<close> and the remote stamp is \<open>T2\<close>, then after the tick the room
  under that id is the remote one when \<open>T2 > T1\<close> and the local one, unchanged,
  otherwise, the tie \<open>T2 = T1\<close> included. So, whenever the two rooms differ at all, the
  room after the tick is the remote one if and only if \<open>T2 > T1\<close>. The same holds for
  game states.
\<close>

theorem reconciler_merge_law:
  assumes "addaMultiplayerSync (localStorage m) = Some data"
    and "distinct (map id' (rooms' data))" and "distinct (map roomId (gameStates' data))"
  shows "(\<forall>remote \<in> set (rooms' data).
            (getRoom (id' remote) m = None \<longrightarrow>
               getRoom (id' remote) (syncWithOtherDevices m) = Some remote) \<and>
            (\<forall>local T1 T2. getRoom (id' remote) m = Some local \<and>
                 lastUpdated local = TimeValue T1 \<and> lastUpdated remote = TimeValue T2 \<longrightarrow>
               getRoom (id' remote) (syncWithOtherDevices m)
                 = Some (if T2 > T1 then remote else local) \<and>
               (local \<noteq> remote \<longrightarrow>
                  (getRoom (id' remote) (syncWithOtherDevices m) = Some remote \<longleftrightarrow> T2 > T1)))) \<and>
         (\<forall>remote \<in> set (gameStates' data).
            (getGameState (roomId remote) m = None \<longrightarrow>
               getGameState (roomId remote) (syncWithOtherDevices m) = Some remote) \<and>
            (\<forall>local T1 T2. getGameState (roomId remote) m = Some local \<and>
                 lastUpdated' local = TimeValue T1 \<and> lastUpdated' remote = TimeValue T2 \<longrightarrow>
               getGameState (roomId remote) (syncWithOtherDevices m)
                 = Some (if T2 > T1 then remote else local) \<and>
               (local \<noteq> remote \<longrightarrow>
                  (getGameState (roomId remote) (syncWithOtherDevices m) = Some remote
                     \<longleftrightarrow> T2 > T1))))"
proof (intro conjI ballI)
  fix remote assume r: "remote \<in> set (rooms' data)"
  have eq: "getRoom (id' remote) (syncWithOtherDevices m)
              = map_of (rooms (syncRoom remote m)) (id' remote)"
    using assms r by (simp add: sync_getRoom fold_syncRoom_lookup)
  show "getRoom (id' remote) m = None \<longrightarrow>
          getRoom (id' remote) (syncWithOtherDevices m) = Some remote"
    unfolding eq by (simp add: syncRoom_lookup getRoom_def)
  show "\<forall>local T1 T2. getRoom (id' remote) m = Some local \<and>
                 lastUpdated local = TimeValue T1 \<and> lastUpdated remote = TimeValue T2 \<longrightarrow>
               getRoom (id' remote) (syncWithOtherDevices m)
                 = Some (if T2 > T1 then remote else local) \<and>
               (local \<noteq> remote \<longrightarrow>
                  (getRoom (id' remote) (syncWithOtherDevices m) = Some remote \<longleftrightarrow> T2 > T1))"
    unfolding eq by (auto simp: syncRoom_lookup getRoom_def)
next
  fix remote assume s: "remote \<in> set (gameStates' data)"
  have eq: "getGameState (roomId remote) (syncWithOtherDevices m)
              = map_of (gameStates (syncGameState remote m)) (roomId remote)"
    using assms s by (simp add: sync_getGameState fold_syncGameState_lookup syncGameState_lookup)
  show "getGameState (roomId remote) m = None \<longrightarrow>
          getGameState (roomId remote) (syncWithOtherDevices m) = Some remote"
    unfolding eq by (simp add: syncGameState_lookup getGameState_def)
  show "\<forall>local T1 T2. getGameState (roomId remote) m = Some local \<and>
                 lastUpdated' local = TimeValue T1 \<and> lastUpdated' remote = TimeValue T2 \<longrightarrow>
               getGameState (roomId remote) (syncWithOtherDevices m)
                 = Some (if T2 > T1 then remote else local) \<and>
               (local \<noteq> remote \<longrightarrow>
                  (getGameState (roomId remote) (syncWithOtherDevices m) = Some remote
                     \<longleftrightarrow> T2 > T1))"
    unfolding eq by (auto simp: syncGameState_lookup getGameState_def)
qed

text \<open>
  The tick of \<open>beforeTick\<close>: room A is newer in the snapshot and is replaced, room B has
  the same stamp there (with another status) and stays, room C is new and is installed.
\<close>

theorem reconciler_merge_law_witness:
  "getRoom ''AAAAAA'' beforeTick = Some localA \<and>
   getRoom ''AAAAAA'' (syncWithOtherDevices beforeTick) = Some remoteA \<and>
   getRoom ''BBBBBB'' beforeTick = Some localB \<and> localB \<noteq> remoteB \<and>
   getRoom ''BBBBBB'' (syncWithOtherDevices beforeTick) = Some localB \<and>
   getRoom ''CCCCCC'' beforeTick = None \<and>
   getRoom ''CCCCCC'' (syncWithOtherDevices beforeTick) = Some remoteC \<and>
   getGameState ''AAAAAA'' (syncWithOtherDevices beforeTick) = Some remoteGameA \<and>
   getGameState ''CCCCCC'' (syncWithOtherDevices beforeTick) = Some remoteGameC"
proof -
  have snap: "addaMultiplayerSync (localStorage beforeTick) = Some otherTabSnapshot"
    by (simp add: beforeTick_def)
  have d1: "distinct (map id' (rooms' otherTabSnapshot))"
    by (simp add: tick_defs)
  have d2: "distinct (map roomId (gameStates' otherTabSnapshot))"
    by (simp add: tick_defs)
  note law = reconciler_merge_law [OF snap d1 d2]
  have locals: "getRoom ''AAAAAA'' beforeTick = Some localA"
    "getRoom ''BBBBBB'' beforeTick = Some localB"
    "getRoom ''CCCCCC'' beforeTick = None"
    "getGameState ''AAAAAA'' beforeTick = Some localGameA"
    "getGameState ''CCCCCC'' beforeTick = None"
    by (simp_all add: getRoom_def getGameState_def beforeTick_def)
  have ids: "id' remoteA = ''AAAAAA''" "id' remoteB = ''BBBBBB''" "id' remoteC = ''CCCCCC''"
    "roomId remoteGameA = ''AAAAAA''" "roomId remoteGameC = ''CCCCCC''"
    by (simp_all add: tick_defs)
  have stamps: "lastUpdated localA = TimeValue 1000" "lastUpdated remoteA = TimeValue 2000"
    "lastUpdated localB = TimeValue 3000" "lastUpdated remoteB = TimeValue 3000"
    "lastUpdated' localGameA = TimeValue 1500" "lastUpdated' remoteGameA = TimeValue 2500"
    by (simp_all add: tick_defs)
  have differ: "localB \<noteq> remoteB"
    by (simp add: tick_defs)
  have mem: "remoteA \<in> set (rooms' otherTabSnapshot)" "remoteB \<in> set (rooms' otherTabSnapshot)"
    "remoteC \<in> set (rooms' otherTabSnapshot)"
    "remoteGameA \<in> set (gameStates' otherTabSnapshot)"
    "remoteGameC \<in> set (gameStates' otherTabSnapshot)"
    by (simp_all add: otherTabSnapshot_def)
  from law mem(1) locals(1) stamps(1,2) ids(1)
  have a: "getRoom ''AAAAAA'' (syncWithOtherDevices beforeTick) = Some remoteA"
    by fastforce
  from law mem(2) locals(2) stamps(3,4) ids(2)
  have b: "getRoom ''BBBBBB'' (syncWithOtherDevices beforeTick) = Some localB"
    by fastforce
  from law mem(3) locals(3) ids(3)
  have c: "getRoom ''CCCCCC'' (syncWithOtherDevices beforeTick) = Some remoteC"
    by fastforce
  from law mem(4) locals(4) stamps(5,6) ids(4)
  have ga: "getGameState ''AAAAAA'' (syncWithOtherDevices beforeTick) = Some remoteGameA"
    by fastforce
  from law mem(5) locals(5) ids(5)
  have gc: "getGameState ''CCCCCC'' (syncWithOtherDevices beforeTick) = Some remoteGameC"
    by fastforce
  from a b c ga gc locals(1,2,3) differ show ?thesis by simp
qed

text \<open>
  Claim C2 as stated fails, as an equivalence: after \<open>createRoom\<close> the snapshot in storage
  holds the very room that the manager holds, so after the next tick the local room
  equals the remote one although the remote stamp is not greater than the local one.
\<close>

theorem reconciler_merge_law_counterexample:
  "getRoom ''K3X9QZ'' friendsCreated = Some aliceRoom \<and>
   map_option rooms' (addaMultiplayerSync (localStorage friendsCreated)) = Some [aliceRoom] \<and>
   getRoom ''K3X9QZ'' (syncWithOtherDevices friendsCreated) = Some aliceRoom \<and>
   \<not> date_gt (lastUpdated aliceRoom) (lastUpdated aliceRoom)"
  by (simp add: friends_defs createRoom_def getRoom_def Let_def saveToStorage_def
      syncWithOtherDevices_def syncRoom_def)

section \<open>The Room invariant\<close>

lemma list_all_update:
  "P v \<Longrightarrow> list_all P (map snd al) \<Longrightarrow> list_all P (map snd (AList.update k v al))"
  by (induction al) auto

lemma list_all_delete:
  "list_all P (map snd al) \<Longrightarrow> list_all P (map snd (AList.delete k al))"
  by (induction al) auto

lemma list_all_lookup:
  "map_of al k = Some v \<Longrightarrow> list_all P (map snd al) \<Longrightarrow> P v"
  by (induction al) (auto split: if_splits)

lemma update_lookup_self: "v \<in> snd ` set (AList.update k v al)"
  by (induction al) auto

lemma roomInvariant_join:
  assumes "roomInvariant room" and "int (length (players room)) < maxPlayers room"
  shows "roomInvariant (room\<lparr>players := players room @ [playerName], lastUpdated := t\<rparr>)"
  using assms by (auto simp: roomInvariant_def)

lemma roomInvariant_leave:
  assumes "roomInvariant room" and "filter (\<lambda>q. q \<noteq> p) (players room) \<noteq> []"
  shows "roomInvariant
           (room\<lparr>players := filter (\<lambda>q. q \<noteq> p) (players room),
                 host := (if host room = p \<and> length (filter (\<lambda>q. q \<noteq> p) (players room)) > 0
                          then filter (\<lambda>q. q \<noteq> p) (players room) ! 0 else host room),
                 lastUpdated := t\<rparr>)"
proof -
  let ?rem = "filter (\<lambda>q. q \<noteq> p) (players room)"
  have "length ?rem \<le> length (players room)"
    by (rule length_filter_le)
  moreover have "int (length (players room)) \<le> maxPlayers room"
    using assms(1) by (simp add: roomInvariant_def)
  ultimately have len: "int (length ?rem) \<le> maxPlayers room"
    by linarith
  have first: "?rem ! 0 \<in> set ?rem"
    using assms(2) by (metis length_greater_0_conv nth_mem)
  have keep: "host room \<noteq> p \<Longrightarrow> host room \<in> set ?rem"
    using assms(1) by (simp add: roomInvariant_def)
  show ?thesis
    using len first keep assms(2) by (simp add: roomInvariant_def)
qed

lemma roomInvariant_status:
  "roomInvariant room \<Longrightarrow> roomInvariant (room\<lparr>status := st, lastUpdated := t\<rparr>)"
  by (simp add: roomInvariant_def)

lemma joinRoom_invariant:
  assumes "repositoryInvariant m"
  shows "repositoryInvariant (snd (joinRoom rid playerName now syncNow m))"
proof (cases "map_of (rooms m) rid")
  case None
  then show ?thesis using assms by (simp add: joinRoom_def)
next
  case (Some room)
  with assms have "roomInvariant room"
    by (auto simp: repositoryInvariant_def intro: list_all_lookup)
  then show ?thesis
    using assms Some
    by (auto simp: joinRoom_def Let_def repositoryInvariant_def
        intro!: list_all_update roomInvariant_join)
qed

lemma leaveRoom_invariant:
  assumes "repositoryInvariant m"
  shows "repositoryInvariant (snd (leaveRoom rid playerName now syncNow m))"
proof (cases "map_of (rooms m) rid")
  case None
  then show ?thesis using assms by (simp add: leaveRoom_def)
next
  case (Some room)
  with assms have inv: "roomInvariant room"
    by (auto simp: repositoryInvariant_def intro: list_all_lookup)
  show ?thesis
  proof (cases "filter (\<lambda>q. q \<noteq> playerName) (players room) = []")
    case True
    then show ?thesis
      using assms Some by (simp add: leaveRoom_def repositoryInvariant_def list_all_delete)
  next
    case False
    then show ?thesis
      using assms Some roomInvariant_leave [OF inv False]
      by (simp add: leaveRoom_def Let_def repositoryInvariant_def list_all_update)
  qed
qed

lemma updateRoomStatus_invariant:
  assumes "repositoryInvariant m"
  shows "repositoryInvariant (snd (updateRoomStatus rid st now syncNow m))"
proof (cases "map_of (rooms m) rid")
  case None
  then show ?thesis using assms by (simp add: updateRoomStatus_def)
next
  case (Some room)
  with assms have "roomInvariant room"
    by (auto simp: repositoryInvariant_def intro: list_all_lookup)
  then show ?thesis
    using assms Some
    by (auto simp: updateRoomStatus_def Let_def repositoryInvariant_def
        intro!: list_all_update roomInvariant_status)
qed

lemma createRoom_invariant:
  assumes "repositoryInvariant m"
  shows "repositoryInvariant (snd (createRoom roomData now syncNow m))
           \<longleftrightarrow> roomInvariant roomData"
proof
  assume "roomInvariant roomData"
  then show "repositoryInvariant (snd (createRoom roomData now syncNow m))"
    using assms
    by (auto simp: createRoom_def Let_def repositoryInvariant_def roomInvariant_def
        intro!: list_all_update)
next
  assume a: "repositoryInvariant (snd (createRoom roomData now syncNow m))"
  let ?room = "fst (createRoom roomData now syncNow m)"
  have "?room \<in> snd ` set (rooms (snd (createRoom roomData now syncNow m)))"
    by (simp add: createRoom_def Let_def update_lookup_self)
  with a have "roomInvariant ?room"
    by (auto simp: repositoryInvariant_def list_all_iff)
  then show "roomInvariant roomData"
    by (simp add: createRoom_def Let_def roomInvariant_def)
qed

text \<open>
  Claim C8, as amended. From a repository in which every room satisfies the Room
  invariant, \<open>joinRoom\<close>, \<open>leaveRoom\<close> and \<open>updateRoomStatus\<close> lead to a repository in which
  every room satisfies it, whatever their arguments; \<open>createRoom\<close> does so exactly when the
  specification it is given satisfies the invariant (as \<open>players = [host]\<close> with
  \<open>maxPlayers\<close> at least 1 does), because it stores the specification as it is.
\<close>

theorem lifecycle_preserves_room_invariant:
  assumes "repositoryInvariant m"
  shows "repositoryInvariant (snd (joinRoom rid playerName now syncNow m)) \<and>
         repositoryInvariant (snd (leaveRoom rid playerName now syncNow m)) \<and>
         repositoryInvariant (snd (updateRoomStatus rid st now syncNow m)) \<and>
         (repositoryInvariant (snd (createRoom roomData now syncNow m))
            \<longleftrightarrow> roomInvariant roomData) \<and>
         (players roomData = [host roomData] \<and> 1 \<le> maxPlayers roomData \<longrightarrow>
            repositoryInvariant (snd (createRoom roomData now syncNow m)))"
  using assms
  by (simp add: joinRoom_invariant leaveRoom_invariant updateRoomStatus_invariant
      createRoom_invariant roomInvariant_def)

theorem lifecycle_preserves_room_invariant_witness:
  "repositoryInvariant friendsJoined \<and>
   rooms friendsJoined \<noteq> [] \<and>
   repositoryInvariant (snd (joinRoom ''K3X9QZ'' ''carol'' 3000 3001 friendsJoined)) \<and>
   repositoryInvariant (snd (leaveRoom ''K3X9QZ'' ''alice'' 3000 3001 friendsJoined)) \<and>
   repositoryInvariant (snd (updateRoomStatus ''K3X9QZ'' Playing 3000 3001 friendsJoined)) \<and>
   roomInvariant friendsSpec \<and>
   repositoryInvariant (snd (createRoom friendsSpec 3000 3001 friendsJoined))"
proof -
  have start: "repositoryInvariant friendsJoined"
    by (simp add: friends_defs createRoom_def joinRoom_def Let_def repositoryInvariant_def
        roomInvariant_def)
  have some: "rooms friendsJoined \<noteq> []"
    by (simp add: friends_defs createRoom_def joinRoom_def Let_def)
  have spec: "roomInvariant friendsSpec"
    by (simp add: friendsSpec_def roomInvariant_def)
  from lifecycle_preserves_room_invariant [OF start, of "''K3X9QZ''" "''carol''" 3000 3001]
    lifecycle_preserves_room_invariant [OF start, of "''K3X9QZ''" "''alice''" 3000 3001
      Playing friendsSpec]
    start some spec
  show ?thesis by simp
qed

text \<open>
  Claim C8 as stated fails for \<open>createRoom\<close>: a specification without players is stored
  as a room without players.
\<close>

theorem createRoom_invariant_counterexample:
  "repositoryInvariant (emptyManager :: (string, string) MultiplayerManager) \<and>
   \<not> repositoryInvariant
       (snd (createRoom (friendsSpec\<lparr>players := []\<rparr>) 1000 1001
               (emptyManager :: (string, string) MultiplayerManager))) \<and>
   map_option players
     (getRoom ''K3X9QZ''
        (snd (createRoom (friendsSpec\<lparr>players := []\<rparr>) 1000 1001
                (emptyManager :: (string, string) MultiplayerManager)))) = Some []"
  by (simp add: repositoryInvariant_def emptyManager_def createRoom_def Let_def
      roomInvariant_def friendsSpec_def getRoom_def)

section \<open>The conflict-resolution clock\<close>

text \<open>
  Claim C9, as amended. Each operation that changes a room (\<open>joinRoom\<close> when it appends the
  player, \<open>leaveRoom\<close> when players remain, \<open>updateRoomStatus\<close>) sets \<open>lastUpdated\<close> of the
  room it returns and stores to the clock reading of the call. For a room whose stamp
  before was the time \<open>t\<close>, the new stamp is strictly greater than the old one if and
  only if the clock reading is later than \<open>t\<close>.
\<close>

theorem mutation_stamps_clock_reading:
  assumes "getRoom rid m = Some room" and "lastUpdated room = TimeValue t"
  shows "(playerName \<notin> set (players room) \<and> int (length (players room)) < maxPlayers room \<longrightarrow>
            map_option lastUpdated (fst (joinRoom rid playerName now syncNow m))
              = Some (TimeValue now) \<and>
            map_option lastUpdated (getRoom rid (snd (joinRoom rid playerName now syncNow m)))
              = Some (TimeValue now)) \<and>
         (filter (\<lambda>q. q \<noteq> playerName) (players room) \<noteq> [] \<longrightarrow>
            map_option lastUpdated (fst (leaveRoom rid playerName now syncNow m))
              = Some (TimeValue now) \<and>
            map_option lastUpdated (getRoom rid (snd (leaveRoom rid playerName now syncNow m)))
              = Some (TimeValue now)) \<and>
         map_option lastUpdated (fst (updateRoomStatus rid st now syncNow m))
           = Some (TimeValue now) \<and>
         map_option lastUpdated (getRoom rid (snd (updateRoomStatus rid st now syncNow m)))
           = Some (TimeValue now) \<and>
         (date_gt (TimeValue now) (lastUpdated room) \<longleftrightarrow> t < now)"
  using assms
  by (auto simp: joinRoom_def leaveRoom_def updateRoomStatus_def getRoom_def Let_def
      update_conv')

theorem mutation_stamps_clock_reading_witness:
  "getRoom ''K3X9QZ'' friendsCreated = Some aliceRoom \<and>
   lastUpdated aliceRoom = TimeValue 1000 \<and>
   map_option lastUpdated (fst (joinRoom ''K3X9QZ'' ''bob'' 2000 2001 friendsCreated))
     = Some (TimeValue 2000) \<and>
   map_option lastUpdated (fst (updateRoomStatus ''K3X9QZ'' Playing 2000 2001 friendsCreated))
     = Some (TimeValue 2000) \<and>
   date_gt (TimeValue 2000) (lastUpdated aliceRoom)"
proof -
  have there: "getRoom ''K3X9QZ'' friendsCreated = Some aliceRoom"
    by (simp add: friends_defs createRoom_def getRoom_def Let_def)
  have stamp: "lastUpdated aliceRoom = TimeValue 1000"
    by (simp add: friends_defs)
  have room: "''bob'' \<notin> set (players aliceRoom)"
    "int (length (players aliceRoom)) < maxPlayers aliceRoom"
    by (simp_all add: friends_defs)
  from mutation_stamps_clock_reading [OF there stamp, of "''bob''" 2000 2001 Playing]
    there stamp room
  show ?thesis by simp
qed

text \<open>
  Claim C9 as stated fails: a player who joins within the millisecond in which the room
  was created changes the room, and the stamp stays what it was.
\<close>

theorem lastUpdated_same_millisecond_counterexample:
  "map_option players
     (getRoom ''K3X9QZ'' (snd (createRoom friendsSpec 1000 1000
         (emptyManager :: (string, string) MultiplayerManager)))) = Some [''alice''] \<and>
   map_option lastUpdated
     (getRoom ''K3X9QZ'' (snd (createRoom friendsSpec 1000 1000
         (emptyManager :: (string, string) MultiplayerManager)))) = Some (TimeValue 1000) \<and>
   map_option players
     (fst (joinRoom ''K3X9QZ'' ''bob'' 1000 1000
        (snd (createRoom friendsSpec 1000 1000
           (emptyManager :: (string, string) MultiplayerManager)))))
     = Some [''alice'', ''bob''] \<and>
   map_option lastUpdated
     (fst (joinRoom ''K3X9QZ'' ''bob'' 1000 1000
        (snd (createRoom friendsSpec 1000 1000
           (emptyManager :: (string, string) MultiplayerManager)))))
     = Some (TimeValue 1000) \<and>
   \<not> date_gt (TimeValue 1000) (TimeValue 1000)"
  by (simp add: friendsSpec_def emptyManager_def createRoom_def joinRoom_def
      getRoom_def Let_def)

end
